theory Spec2Isabelle
  imports Main
begin

section \<open>Python strings\<close>

text \<open>
  A Python \<open>str\<close> is modelled as a \<open>string\<close> (a list of characters); one \<open>char\<close> stands
  for one code point, so the model covers the code points below 256 and \<open>length\<close> is
  Python's \<open>len\<close>.
\<close>

definition nl :: string where
  "nl = [CHR 0x0A]"

text \<open>\<open>str.isspace\<close> on one character, for the code points below 256.\<close>

definition py_isspace :: "char \<Rightarrow> bool" where
  "py_isspace c =
     (let n = (of_char c :: nat)
      in (9 \<le> n \<and> n \<le> 13) \<or> (28 \<le> n \<and> n \<le> 32) \<or> n = 133 \<or> n = 160)"

text \<open>\<open>s.strip()\<close>: leading and trailing whitespace removed.\<close>

definition strip :: "string \<Rightarrow> string" where
  "strip s = rev (dropWhile py_isspace (rev (dropWhile py_isspace s)))"

text \<open>\<open>s.lower()\<close>, for the code points below 256.\<close>

definition py_lower_char :: "char \<Rightarrow> char" where
  "py_lower_char c =
     (let n = (of_char c :: nat)
      in if (65 \<le> n \<and> n \<le> 90) \<or> (192 \<le> n \<and> n \<le> 222 \<and> n \<noteq> 215)
         then char_of (n + 32) else c)"

definition lower :: "string \<Rightarrow> string" where
  "lower s = map py_lower_char s"

text \<open>\<open>needle in hay\<close> on strings: \<open>needle\<close> occurs as a contiguous substring.\<close>

fun starts_with :: "string \<Rightarrow> string \<Rightarrow> bool" where
  "starts_with [] hay = True"
| "starts_with (c # cs) [] = False"
| "starts_with (c # cs) (h # hs) = (c = h \<and> starts_with cs hs)"

fun str_in :: "string \<Rightarrow> string \<Rightarrow> bool" where
  "str_in needle [] = starts_with needle []"
| "str_in needle (h # hs) = (starts_with needle (h # hs) \<or> str_in needle hs)"

text \<open>\<open>s[:n]\<close>: a negative stop counts from the end, and the slice is clamped.\<close>

definition slice_to :: "string \<Rightarrow> int \<Rightarrow> string" where
  "slice_to s n =
     (if 0 \<le> n then take (nat n) s else take (nat (int (length s) + n)) s)"

text \<open>\<open>sep.join(parts)\<close>.\<close>

fun join :: "string \<Rightarrow> string list \<Rightarrow> string" where
  "join sep [] = []"
| "join sep [p] = p"
| "join sep (p # q # ps) = p @ sep @ join sep (q # ps)"

text \<open>\<open>str(n)\<close> for integers, as the f-strings use it.\<close>

definition digit_char :: "nat \<Rightarrow> char" where
  "digit_char d = char_of (48 + d)"

fun str_nat :: "nat \<Rightarrow> string" where
  "str_nat n = (if n < 10 then [digit_char n] else str_nat (n div 10) @ [digit_char (n mod 10)])"

declare str_nat.simps [simp del]

definition str_int :: "int \<Rightarrow> string" where
  "str_int i = (if i < 0 then CHR ''-'' # str_nat (nat (- i)) else str_nat (nat i))"

section \<open>Documents\<close>

text \<open>
  A LangChain \<open>Document\<close>: the text and a metadata dictionary whose values are strings or
  integers. \<open>metadata.get(k)\<close> is the map applied to \<open>k\<close>; \<open>None\<close> is a missing key.
\<close>

datatype meta_value = MStr string | MInt int

record document =
  page_content :: string
  metadata :: "string \<rightharpoonup> meta_value"

text \<open>Python truthiness of \<open>metadata.get(k)\<close>, and \<open>a or b\<close> on such a value.\<close>

fun truthy :: "meta_value option \<Rightarrow> bool" where
  "truthy None = False"
| "truthy (Some (MStr s)) = (s \<noteq> [])"
| "truthy (Some (MInt i)) = (i \<noteq> 0)"

fun py_or :: "meta_value option \<Rightarrow> meta_value \<Rightarrow> meta_value" where
  "py_or None b = b"
| "py_or (Some v) b = (if truthy (Some v) then v else b)"

fun py_str :: "meta_value \<Rightarrow> string" where
  "py_str (MStr s) = s"
| "py_str (MInt i) = str_int i"

section \<open>Context formatting\<close>

text \<open>
  \<open>format_docs\<close> of exercise 4 (hybrid retrieval). The loop over
  \<open>enumerate(docs, start=1)\<close> carries the index and the list \<open>parts\<close>.
\<close>

definition title4 :: "document \<Rightarrow> nat \<Rightarrow> meta_value" where
  "title4 doc i =
     py_or (metadata doc ''title'')
       (py_or (metadata doc ''source'')
         (py_or (metadata doc ''page'') (MStr (''Result '' @ str_nat i))))"

fun format_docs4_loop :: "int \<Rightarrow> nat \<Rightarrow> document list \<Rightarrow> string list \<Rightarrow> string list" where
  "format_docs4_loop max_chars i [] parts = parts"
| "format_docs4_loop max_chars i (doc # docs) parts =
     (let title = title4 doc i;
          content = strip (page_content doc);
          content = (if int (length content) > max_chars
                     then slice_to content (max_chars - 3) @ ''...'' else content)
      in format_docs4_loop max_chars (i + 1) docs
           (parts @ [''['' @ py_str title @ '']'' @ nl @ content]))"

definition format_docs4 :: "document list \<Rightarrow> int \<Rightarrow> string" where
  "format_docs4 docs max_chars = join (nl @ nl) (format_docs4_loop max_chars 1 docs [])"

text \<open>\<open>format_docs\<close> of exercise 5 (multilingual knowledge base).\<close>

definition title5 :: "document \<Rightarrow> nat \<Rightarrow> meta_value" where
  "title5 doc i = py_or (metadata doc ''title'') (MStr (''Source '' @ str_nat i))"

fun format_docs5_loop :: "int \<Rightarrow> nat \<Rightarrow> document list \<Rightarrow> string list \<Rightarrow> string list" where
  "format_docs5_loop max_chars i [] parts = parts"
| "format_docs5_loop max_chars i (doc # docs) parts =
     (let title = title5 doc i;
          content = strip (page_content doc);
          content = (if int (length content) > max_chars
                     then slice_to content (max_chars - 3) @ ''...'' else content)
      in format_docs5_loop max_chars (i + 1) docs
           (parts @ [''['' @ py_str title @ '']'' @ nl @ content]))"

definition format_docs5 :: "document list \<Rightarrow> int \<Rightarrow> string" where
  "format_docs5 docs max_chars = join (nl @ nl) (format_docs5_loop max_chars 1 docs [])"

text \<open>\<open>format_docs\<close> of exercise 3 (multi-source news): no stripping, no truncation.\<close>

definition title3 :: "document \<Rightarrow> nat \<Rightarrow> meta_value" where
  "title3 doc i =
     py_or (metadata doc ''title'')
       (py_or (metadata doc ''source'') (MStr (''Source '' @ str_nat i)))"

fun format_docs3_loop :: "nat \<Rightarrow> document list \<Rightarrow> string list \<Rightarrow> string list" where
  "format_docs3_loop i [] parts = parts"
| "format_docs3_loop i (doc # docs) parts =
     (let title = title3 doc i
      in format_docs3_loop (i + 1) docs
           (parts @ [''['' @ py_str title @ '']'' @ nl @ page_content doc]))"

definition format_docs3 :: "document list \<Rightarrow> string" where
  "format_docs3 docs = join (nl @ nl) (format_docs3_loop 1 docs [])"

section \<open>Collaborators\<close>

text \<open>
  A raised exception is a value. \<open>PyException\<close> is an instance of \<open>Exception\<close>, which
  \<open>except Exception\<close> catches; \<open>PyBaseException\<close> is one of the others
  (\<open>KeyboardInterrupt\<close>, \<open>SystemExit\<close>), which it does not catch.
\<close>

datatype py_exc = PyException string | PyBaseException string

text \<open>The retriever objects the code constructs, with their keyword arguments.\<close>

datatype retriever =
    ArxivRetriever nat                  \<comment> \<open>\<open>load_max_docs\<close>\<close>
  | TavilySearchAPIRetriever nat string \<comment> \<open>\<open>k\<close>, \<open>search_type\<close>\<close>
  | WikipediaRetriever nat string       \<comment> \<open>\<open>top_k_results\<close>, \<open>lang\<close>\<close>

text \<open>
  Every chain of the code is \<open>prompt | llm | StrOutputParser()\<close> on the same chat model;
  an invocation of the generative backend is identified by the chain's template and the
  values of its variables.
\<close>

datatype llm_input =
    ClassifierInput string              \<comment> \<open>\<open>query\<close>\<close>
  | AnswerInput string string string    \<comment> \<open>\<open>context\<close>, \<open>question\<close>, \<open>target_language\<close>\<close>
  | NewsInput string string string      \<comment> \<open>\<open>topic\<close>, \<open>news_context\<close>, \<open>wiki_context\<close>\<close>

record world =
  detect :: "string \<Rightarrow> py_exc + string"
  retriever_invoke :: "retriever \<Rightarrow> string \<Rightarrow> py_exc + document list"
  llm_invoke :: "llm_input \<Rightarrow> py_exc + string"

text \<open>The calls a pipeline makes to its collaborators, in order.\<close>

datatype event =
    DetectCall string
  | RetrieverCall retriever string
  | LlmCall llm_input

type_synonym 'a outcome = "event list \<times> (py_exc + 'a)"

section \<open>Exercise 4: hybrid retrieval\<close>

definition classify_query :: "world \<Rightarrow> string \<Rightarrow> string outcome" where
  "classify_query w query =
     (case llm_invoke w (ClassifierInput query) of
        Inl e \<Rightarrow> ([LlmCall (ClassifierInput query)], Inl e)
      | Inr out \<Rightarrow>
          (let raw = lower (strip out)
           in ([LlmCall (ClassifierInput query)],
               Inr (if str_in ''academic'' raw then ''academic''
                    else if str_in ''current_events'' raw \<or> str_in ''current'' raw
                            \<or> str_in ''news'' raw then ''current_events''
                    else if str_in ''general'' raw then ''general''
                    else ''general''))))"

definition get_retriever_for_type :: "string \<Rightarrow> retriever" where
  "get_retriever_for_type query_type =
     (if query_type = ''academic'' then ArxivRetriever 3
      else if query_type = ''current_events'' then TavilySearchAPIRetriever 5 ''news''
      else WikipediaRetriever 3 ''en'')"

definition hybrid_retrieve :: "world \<Rightarrow> string \<Rightarrow> string outcome" where
  "hybrid_retrieve w query =
     (case classify_query w query of
        (t, Inl e) \<Rightarrow> (t, Inl e)
      | (t, Inr query_type) \<Rightarrow>
          (let retriever = get_retriever_for_type query_type;
               t = t @ [RetrieverCall retriever query]
           in case retriever_invoke w retriever query of
                Inl e \<Rightarrow> (t, Inl e)
              | Inr docs \<Rightarrow>
                  if length docs = 0
                  then (t, Inr (''Query type: '' @ query_type @ nl
                                @ ''No results found from the selected source.''))
                  else
                    (let context = format_docs4 docs 800;
                         header = ''Query type: '' @ query_type @ nl @ ''Selected source: '';
                         header =
                           (if query_type = ''academic''
                            then header @ ''arXiv (academic papers)'' @ nl
                            else if query_type = ''current_events''
                            then header @ ''Tavily (current news/web)'' @ nl
                            else header @ ''Wikipedia (general knowledge)'' @ nl)
                     in (t, Inr (header @ nl @ context)))))"

section \<open>Exercise 5: multilingual knowledge base\<close>

definition detect_query_language :: "world \<Rightarrow> string \<Rightarrow> string outcome" where
  "detect_query_language w query =
     (case detect w query of
        Inr lang_code \<Rightarrow> ([DetectCall query], Inr lang_code)
      | Inl (PyException m) \<Rightarrow> ([DetectCall query], Inr ''en'')
      | Inl (PyBaseException m) \<Rightarrow> ([DetectCall query], Inl (PyBaseException m)))"

definition language_name_from_code :: "string \<Rightarrow> string" where
  "language_name_from_code lang_code =
     (case map_of
        [(''en'', ''English''), (''es'', ''Spanish''), (''fr'', ''French''),
         (''de'', ''German''), (''hi'', ''Hindi''), (''pt'', ''Portuguese''),
         (''it'', ''Italian''), (''nl'', ''Dutch''), (''sv'', ''Swedish''),
         (''ru'', ''Russian''), (''zh-cn'', ''Chinese (Simplified)''),
         (''zh-tw'', ''Chinese (Traditional)''), (''ja'', ''Japanese''),
         (''ko'', ''Korean'')] (lower lang_code) of
        Some name \<Rightarrow> name
      | None \<Rightarrow> ''the same language as the question'')"

definition supported :: "string list" where
  "supported = [''en'', ''es'', ''fr'', ''de'', ''hi'', ''pt'', ''it'', ''nl'', ''sv'', ''ru'',
                ''ja'', ''ko'']"

definition get_wikipedia_retriever :: "string \<Rightarrow> retriever" where
  "get_wikipedia_retriever lang_code =
     (let wiki_lang = (if lang_code \<in> set supported then lang_code else ''en'')
      in WikipediaRetriever 3 wiki_lang)"

definition answer_query_multilingual :: "world \<Rightarrow> string \<Rightarrow> string outcome" where
  "answer_query_multilingual w query =
     (case detect_query_language w query of
        (t, Inl e) \<Rightarrow> (t, Inl e)
      | (t, Inr lang_code) \<Rightarrow>
          (let lang_name = language_name_from_code lang_code;
               retriever = get_wikipedia_retriever lang_code;
               t = t @ [RetrieverCall retriever query]
           in case retriever_invoke w retriever query of
                Inl e \<Rightarrow> (t, Inl e)
              | Inr docs \<Rightarrow>
                  if length docs = 0
                  then (t, Inr (''[Detected language: '' @ lang_code @ '' ('' @ lang_name
                                @ '')]'' @ nl
                                @ ''No relevant Wikipedia articles were found for this query.''))
                  else
                    (let context = format_docs5 docs 1000;
                         t = t @ [LlmCall (AnswerInput context query lang_name)]
                     in case llm_invoke w (AnswerInput context query lang_name) of
                          Inl e \<Rightarrow> (t, Inl e)
                        | Inr answer \<Rightarrow>
                            (let header = ''[Detected language: '' @ lang_code @ '' (''
                                          @ lang_name @ '')]'' @ nl
                             in (t, Inr (header @ nl @ answer))))))"

section \<open>Exercise 3: multi-source news aggregator\<close>

text \<open>
  The chain that \<open>build_multi_source_news_chain\<close> returns, invoked on a topic. The dict of
  runnables runs its three entries on the topic and collects their results in the order of
  its keys, so the first entry that raised decides the exception; both retrievers are
  called in any case (concurrently: the trace lists them in the order of the keys).
\<close>

definition multi_source_news_chain :: "world \<Rightarrow> string \<Rightarrow> string outcome" where
  "multi_source_news_chain w topic =
     (let tavily_retriever = TavilySearchAPIRetriever 5 ''news'';
          wiki_retriever = WikipediaRetriever 3 ''en'';
          t = [RetrieverCall tavily_retriever topic, RetrieverCall wiki_retriever topic]
      in case retriever_invoke w tavily_retriever topic of
           Inl e \<Rightarrow> (t, Inl e)
         | Inr news_docs \<Rightarrow>
             (case retriever_invoke w wiki_retriever topic of
                Inl e \<Rightarrow> (t, Inl e)
              | Inr wiki_docs \<Rightarrow>
                  (let news_context = format_docs3 news_docs;
                       wiki_context = format_docs3 wiki_docs;
                       t = t @ [LlmCall (NewsInput topic news_context wiki_context)]
                   in (t, llm_invoke w (NewsInput topic news_context wiki_context)))))"

section \<open>Example inputs\<close>

definition doc_long :: document where
  "doc_long = \<lparr>page_content = ''  abcdefghij '', metadata = [''title'' \<mapsto> MStr ''T'']\<rparr>"

definition doc_short :: document where
  "doc_short = \<lparr>page_content = '' abc '', metadata = [''page'' \<mapsto> MInt 12]\<rparr>"

definition doc_plain :: document where
  "doc_plain = \<lparr>page_content = ''abcd'', metadata = Map.empty\<rparr>"

text \<open>
  A record that differs from \<open>doc_long\<close> in its surrounding whitespace and in a metadata
  key the formatters do not read.
\<close>

definition doc_padded :: document where
  "doc_padded = \<lparr>page_content = ''abcdefghij  '',
                  metadata = [''title'' \<mapsto> MStr ''T'', ''author'' \<mapsto> MStr ''A'']\<rparr>"

text \<open>A detector that raises, as \<open>langdetect\<close> does on a text without features.\<close>

definition world_detect_fails :: world where
  "world_detect_fails =
     \<lparr>detect = (\<lambda>q. Inl (PyException ''No features in text.'')),
      retriever_invoke = (\<lambda>r q. Inr [doc_plain]),
      llm_invoke = (\<lambda>i. Inr ''answer'')\<rparr>"

text \<open>A classifier model that answers with more than one keyword.\<close>

definition world_ambiguous :: world where
  "world_ambiguous =
     \<lparr>detect = (\<lambda>q. Inr ''en''),
      retriever_invoke = (\<lambda>r q. Inr [doc_plain]),
      llm_invoke = (\<lambda>i. Inr '' academic news '')\<rparr>"

definition world_capitalised :: world where
  "world_capitalised =
     \<lparr>detect = (\<lambda>q. Inr ''en''),
      retriever_invoke = (\<lambda>r q. Inr [doc_plain]),
      llm_invoke = (\<lambda>i. Inr ''Academic news'')\<rparr>"

definition world_news_general :: world where
  "world_news_general =
     \<lparr>detect = (\<lambda>q. Inr ''en''),
      retriever_invoke = (\<lambda>r q. Inr [doc_plain]),
      llm_invoke = (\<lambda>i. Inr ''General NEWS'')\<rparr>"

text \<open>A classifier model that answers with no keyword at all.\<close>

definition world_unclear :: world where
  "world_unclear =
     \<lparr>detect = (\<lambda>q. Inr ''en''),
      retriever_invoke = (\<lambda>r q. Inr [doc_plain]),
      llm_invoke = (\<lambda>i. Inr ''I am not sure.'')\<rparr>"

text \<open>
  Scenario B: the detector reports a code outside the supported languages.
\<close>

definition world_xx :: world where
  "world_xx =
     \<lparr>detect = (\<lambda>q. Inr ''xx''),
      retriever_invoke = (\<lambda>r q. Inr [doc_plain]),
      llm_invoke = (\<lambda>i. Inr ''answer'')\<rparr>"

text \<open>
  Scenario A: the classifier answers \<open>current_events\<close> and the retriever finds nothing.
\<close>

definition world_no_results :: world where
  "world_no_results =
     \<lparr>detect = (\<lambda>q. Inr ''en''),
      retriever_invoke = (\<lambda>r q. Inr []),
      llm_invoke = (\<lambda>i. Inr ''current_events'')\<rparr>"

text \<open>
  Scenario C: the news retriever returns three records and the Wikipedia retriever times
  out; and the converse, where the news retriever is the one that fails.
\<close>

definition world_wiki_timeout :: world where
  "world_wiki_timeout =
     \<lparr>detect = (\<lambda>q. Inr ''en''),
      retriever_invoke =
        (\<lambda>r q. case r of
                 TavilySearchAPIRetriever k search_type \<Rightarrow> Inr [doc_long, doc_short, doc_plain]
               | _ \<Rightarrow> Inl (PyException ''timed out'')),
      llm_invoke = (\<lambda>i. Inr ''summary'')\<rparr>"

definition world_tavily_down :: world where
  "world_tavily_down =
     \<lparr>detect = (\<lambda>q. Inr ''en''),
      retriever_invoke =
        (\<lambda>r q. case r of
                 TavilySearchAPIRetriever k search_type \<Rightarrow> Inl (PyException ''unauthorized'')
               | _ \<Rightarrow> Inr [doc_plain]),
      llm_invoke = (\<lambda>i. Inr ''summary'')\<rparr>"

section \<open>Substrings, stripping and lowering\<close>

lemma starts_with_iff: "starts_with n s \<longleftrightarrow> (\<exists>ss. s = n @ ss)"
  by (induction n s rule: starts_with.induct) auto

lemma str_in_iff: "str_in n s \<longleftrightarrow> (\<exists>ps ss. s = ps @ n @ ss)"
proof (induction s)
  case Nil
  show ?case by (cases n) (auto simp: starts_with_iff)
next
  case (Cons h hs)
  show ?case
  proof
    assume "str_in n (h # hs)"
    then consider "starts_with n (h # hs)" | "str_in n hs" by auto
    then show "\<exists>ps ss. h # hs = ps @ n @ ss"
    proof cases
      case 1
      then obtain ss where "h # hs = n @ ss" by (auto simp: starts_with_iff)
      then have "h # hs = [] @ n @ ss" by simp
      then show ?thesis by blast
    next
      case 2
      then obtain ps ss where "hs = ps @ n @ ss" using Cons.IH by blast
      then have "h # hs = (h # ps) @ n @ ss" by simp
      then show ?thesis by blast
    qed
  next
    assume "\<exists>ps ss. h # hs = ps @ n @ ss"
    then obtain ps ss where eq: "h # hs = ps @ n @ ss" by blast
    show "str_in n (h # hs)"
    proof (cases ps)
      case Nil
      with eq have "starts_with n (h # hs)" by (auto simp: starts_with_iff)
      then show ?thesis by simp
    next
      case (Cons p ps')
      with eq have "hs = ps' @ n @ ss" by simp
      then have "str_in n hs" using Cons.IH by blast
      then show ?thesis by simp
    qed
  qed
qed

lemma str_in_dropWhile:
  assumes "str_in n s" and "n \<noteq> []" and "\<not> P (hd n)"
  shows "str_in n (dropWhile P s)"
proof -
  from assms(1) obtain ps ss where s: "s = ps @ n @ ss" by (auto simp: str_in_iff)
  from assms(2) obtain c cs where n: "n = c # cs" by (cases n) auto
  show ?thesis
  proof (cases "\<forall>x \<in> set ps. P x")
    case True
    then have "dropWhile P s = dropWhile P (n @ ss)" by (simp add: s)
    also have "\<dots> = [] @ n @ ss" using assms(3) n by simp
    finally show ?thesis unfolding str_in_iff by blast
  next
    case False
    then have "dropWhile P s = dropWhile P ps @ n @ ss"
      by (auto simp: s dropWhile_append1)
    then show ?thesis unfolding str_in_iff by blast
  qed
qed

lemma str_in_rev: "str_in n s \<Longrightarrow> str_in (rev n) (rev s)"
proof -
  assume "str_in n s"
  then obtain ps ss where "s = ps @ n @ ss" by (auto simp: str_in_iff)
  then have "rev s = rev ss @ rev n @ rev ps" by simp
  then show ?thesis unfolding str_in_iff by blast
qed

lemma str_in_strip:
  assumes "str_in n s" and "n \<noteq> []" and "\<not> py_isspace (hd n)" and "\<not> py_isspace (last n)"
  shows "str_in n (strip s)"
proof -
  have 1: "str_in n (dropWhile py_isspace s)"
    using assms by (simp add: str_in_dropWhile)
  have 2: "str_in (rev n) (rev (dropWhile py_isspace s))"
    using 1 by (rule str_in_rev)
  have "str_in (rev n) (dropWhile py_isspace (rev (dropWhile py_isspace s)))"
    using 2 assms(2,4) by (simp add: str_in_dropWhile hd_rev)
  then have "str_in (rev (rev n)) (rev (dropWhile py_isspace (rev (dropWhile py_isspace s))))"
    by (rule str_in_rev)
  then show ?thesis by (simp add: strip_def)
qed

lemma str_in_lower: "str_in n s \<Longrightarrow> str_in (lower n) (lower s)"
proof -
  assume "str_in n s"
  then obtain ps ss where "s = ps @ n @ ss" by (auto simp: str_in_iff)
  then have "lower s = lower ps @ lower n @ lower ss" by (simp add: lower_def)
  then show ?thesis unfolding str_in_iff by blast
qed

lemma keyword_normalised:
  assumes "str_in k out" and "k \<noteq> []" and "\<not> py_isspace (hd k)" and "\<not> py_isspace (last k)"
    and "lower k = k"
  shows "str_in k (lower (strip out))"
  using str_in_lower [OF str_in_strip [OF assms(1-4)]] assms(5) by simp

lemma kw_academic: "str_in ''academic'' out \<Longrightarrow> str_in ''academic'' (lower (strip out))"
  by (rule keyword_normalised) (simp_all add: py_isspace_def lower_def py_lower_char_def)

lemma kw_news: "str_in ''news'' out \<Longrightarrow> str_in ''news'' (lower (strip out))"
  by (rule keyword_normalised) (simp_all add: py_isspace_def lower_def py_lower_char_def)

lemma kw_current: "str_in ''current'' out \<Longrightarrow> str_in ''current'' (lower (strip out))"
  by (rule keyword_normalised) (simp_all add: py_isspace_def lower_def py_lower_char_def)

lemma kw_current_events: "str_in ''current_events'' out \<Longrightarrow> str_in ''current_events'' (lower (strip out))"
  by (rule keyword_normalised) (simp_all add: py_isspace_def lower_def py_lower_char_def)

lemma kw_general: "str_in ''general'' out \<Longrightarrow> str_in ''general'' (lower (strip out))"
  by (rule keyword_normalised) (simp_all add: py_isspace_def lower_def py_lower_char_def)

section \<open>The formatting loops\<close>

lemma format_docs4_loop_append:
  "format_docs4_loop m i docs parts = parts @ format_docs4_loop m i docs []"
proof (induction docs arbitrary: i parts)
  case Nil show ?case by simp
next
  case (Cons d ds)
  show ?case
    by (simp add: Let_def Cons.IH [of "Suc i" "parts @ _"] Cons.IH [of "Suc i" "[_]"])
qed

lemma format_docs4_loop_length:
  "length (format_docs4_loop m i docs parts) = length parts + length docs"
  by (induction docs arbitrary: i parts) (simp_all add: Let_def)

lemma format_docs4_loop_nth:
  "k < length docs \<Longrightarrow>
   format_docs4_loop m i docs parts ! (length parts + k) =
     ''['' @ py_str (title4 (docs ! k) (i + k)) @ '']'' @ nl @
     (if m < int (length (strip (page_content (docs ! k))))
      then slice_to (strip (page_content (docs ! k))) (m - 3) @ ''...''
      else strip (page_content (docs ! k)))"
proof (induction docs arbitrary: i parts k)
  case Nil
  then show ?case by simp
next
  case (Cons d ds)
  show ?case
  proof (cases k)
    case 0
    have "format_docs4_loop m i (d # ds) parts ! length parts =
          (parts @ [''['' @ py_str (title4 d i) @ '']'' @ nl @
            (if m < int (length (strip (page_content d)))
             then slice_to (strip (page_content d)) (m - 3) @ ''...''
             else strip (page_content d))]) ! length parts"
      by (simp add: Let_def format_docs4_loop_append [of m "Suc i" ds "parts @ _"] nth_append)
    with 0 show ?thesis by simp
  next
    case (Suc j)
    with Cons.prems have j: "j < length ds" by simp
    show ?thesis
      using Cons.IH [OF j, of "Suc i" "parts @ [_]"] Suc
      by (simp add: Let_def)
  qed
qed

lemma slice_to_budget:
  "3 \<le> m \<Longrightarrow> m < int (length c) \<Longrightarrow>
   slice_to c (m - 3) = take (nat (m - 3)) c \<and> int (length (slice_to c (m - 3) @ ''...'')) = m"
  by (auto simp: slice_to_def min_def)

lemma format_docs5_loop_append:
  "format_docs5_loop m i docs parts = parts @ format_docs5_loop m i docs []"
proof (induction docs arbitrary: i parts)
  case Nil show ?case by simp
next
  case (Cons d ds)
  show ?case
    by (simp add: Let_def Cons.IH [of "Suc i" "parts @ _"] Cons.IH [of "Suc i" "[_]"])
qed

lemma format_docs5_loop_length:
  "length (format_docs5_loop m i docs parts) = length parts + length docs"
  by (induction docs arbitrary: i parts) (simp_all add: Let_def)

lemma format_docs5_loop_nth:
  "k < length docs \<Longrightarrow>
   format_docs5_loop m i docs parts ! (length parts + k) =
     ''['' @ py_str (title5 (docs ! k) (i + k)) @ '']'' @ nl @
     (if m < int (length (strip (page_content (docs ! k))))
      then slice_to (strip (page_content (docs ! k))) (m - 3) @ ''...''
      else strip (page_content (docs ! k)))"
proof (induction docs arbitrary: i parts k)
  case Nil
  then show ?case by simp
next
  case (Cons d ds)
  show ?case
  proof (cases k)
    case 0
    have "format_docs5_loop m i (d # ds) parts ! length parts =
          (parts @ [''['' @ py_str (title5 d i) @ '']'' @ nl @
            (if m < int (length (strip (page_content d)))
             then slice_to (strip (page_content d)) (m - 3) @ ''...''
             else strip (page_content d))]) ! length parts"
      by (simp add: Let_def format_docs5_loop_append [of m "Suc i" ds "parts @ _"] nth_append)
    with 0 show ?thesis by simp
  next
    case (Suc j)
    with Cons.prems have j: "j < length ds" by simp
    show ?thesis
      using Cons.IH [OF j, of "Suc i" "parts @ [_]"] Suc
      by (simp add: Let_def)
  qed
qed


lemma format_docs3_loop_append:
  "format_docs3_loop i docs parts = parts @ format_docs3_loop i docs []"
proof (induction docs arbitrary: i parts)
  case Nil show ?case by simp
next
  case (Cons d ds)
  show ?case
    by (simp add: Let_def Cons.IH [of "Suc i" "parts @ _"] Cons.IH [of "Suc i" "[_]"])
qed

lemma format_docs3_loop_length:
  "length (format_docs3_loop i docs parts) = length parts + length docs"
  by (induction docs arbitrary: i parts) (simp_all add: Let_def)

lemma format_docs3_loop_nth:
  "k < length docs \<Longrightarrow>
   format_docs3_loop i docs parts ! (length parts + k) =
     ''['' @ py_str (title3 (docs ! k) (i + k)) @ '']'' @ nl @ page_content (docs ! k)"
proof (induction docs arbitrary: i parts k)
  case Nil
  then show ?case by simp
next
  case (Cons d ds)
  show ?case
  proof (cases k)
    case 0
    have "format_docs3_loop i (d # ds) parts ! length parts =
          (parts @ [''['' @ py_str (title3 d i) @ '']'' @ nl @ page_content d]) ! length parts"
      by (simp add: Let_def format_docs3_loop_append [of "Suc i" ds "parts @ _"] nth_append)
    with 0 show ?thesis by simp
  next
    case (Suc j)
    with Cons.prems have j: "j < length ds" by simp
    show ?thesis
      using Cons.IH [OF j, of "Suc i" "parts @ [_]"] Suc
      by (simp add: Let_def)
  qed
qed

section \<open>Context formatting: truncation\<close>

text \<open>
  C3, as amended. For a budget of at least 3, and with \<open>c\<close> the stripped text of the
  \<open>k\<close>-th record: the output of \<open>format_docs\<close> (exercises 4 and 5) is the list of blocks
  joined by a blank line, one block per record in the order of the records; when \<open>c\<close> is
  longer than the budget, the block is the label followed by the first \<open>max_chars - 3\<close>
  characters of \<open>c\<close> and the marker \<open>...\<close>, which together have exactly \<open>max_chars\<close>
  characters; when \<open>c\<close> is not longer than the budget, the block is the label followed by
  \<open>c\<close> in full.
\<close>

theorem format_docs_truncation:
  assumes "3 \<le> max_chars" and "k < length docs"
  shows "(let c = strip (page_content (docs ! k));
              label4 = ''['' @ py_str (title4 (docs ! k) (k + 1)) @ '']'' @ nl;
              label5 = ''['' @ py_str (title5 (docs ! k) (k + 1)) @ '']'' @ nl;
              parts4 = format_docs4_loop max_chars 1 docs [];
              parts5 = format_docs5_loop max_chars 1 docs []
          in format_docs4 docs max_chars = join (nl @ nl) parts4
           \<and> format_docs5 docs max_chars = join (nl @ nl) parts5
           \<and> length parts4 = length docs \<and> length parts5 = length docs
           \<and> (max_chars < int (length c) \<longrightarrow>
                  parts4 ! k = label4 @ take (nat (max_chars - 3)) c @ ''...''
                \<and> parts5 ! k = label5 @ take (nat (max_chars - 3)) c @ ''...''
                \<and> int (length (take (nat (max_chars - 3)) c @ ''...'')) = max_chars)
           \<and> (int (length c) \<le> max_chars \<longrightarrow>
                  parts4 ! k = label4 @ c \<and> parts5 ! k = label5 @ c))"
proof -
  let ?c = "strip (page_content (docs ! k))"
  have n4: "format_docs4_loop max_chars 1 docs [] ! k =
              ''['' @ py_str (title4 (docs ! k) (k + 1)) @ '']'' @ nl @
              (if max_chars < int (length ?c) then slice_to ?c (max_chars - 3) @ ''...'' else ?c)"
    using format_docs4_loop_nth [OF assms(2), of max_chars 1 "[]"] by simp
  have n5: "format_docs5_loop max_chars 1 docs [] ! k =
              ''['' @ py_str (title5 (docs ! k) (k + 1)) @ '']'' @ nl @
              (if max_chars < int (length ?c) then slice_to ?c (max_chars - 3) @ ''...'' else ?c)"
    using format_docs5_loop_nth [OF assms(2), of max_chars 1 "[]"] by simp
  have long: "slice_to ?c (max_chars - 3) = take (nat (max_chars - 3)) ?c
              \<and> int (length (slice_to ?c (max_chars - 3) @ ''...'')) = max_chars"
    if "max_chars < int (length ?c)"
    using slice_to_budget [OF assms(1) that] .
  show ?thesis
    unfolding Let_def format_docs4_def format_docs5_def
    using n4 n5 long assms(1)
    by (auto simp: format_docs4_loop_length format_docs5_loop_length)
qed

theorem format_docs_truncation_witness:
  "(3::int) \<le> 5 \<and> (0::nat) < length [doc_long, doc_short]
   \<and> 5 < int (length (strip (page_content doc_long)))
   \<and> format_docs4_loop 5 1 [doc_long, doc_short] [] ! 0 = ''[T]'' @ nl @ ''ab...''
   \<and> format_docs5_loop 5 1 [doc_long, doc_short] [] ! 0 = ''[T]'' @ nl @ ''ab...''
   \<and> (1::nat) < length [doc_long, doc_short]
   \<and> int (length (strip (page_content doc_short))) \<le> 5
   \<and> format_docs4_loop 5 1 [doc_long, doc_short] [] ! 1 = ''[12]'' @ nl @ ''abc''
   \<and> format_docs5_loop 5 1 [doc_long, doc_short] [] ! 1 = ''[Source 2]'' @ nl @ ''abc''"
proof -
  have s: "strip (page_content doc_long) = ''abcdefghij''"
          "strip (page_content doc_short) = ''abc''"
    by (simp_all add: doc_long_def doc_short_def strip_def py_isspace_def)
  have t: "py_str (title4 doc_long (Suc 0)) = ''T''"
          "py_str (title5 doc_long (Suc 0)) = ''T''"
          "py_str (title4 doc_short (Suc (Suc 0))) = ''12''"
          "py_str (title5 doc_short (Suc (Suc 0))) = ''Source 2''"
    by code_simp+
  show ?thesis
    using format_docs_truncation [of 5 0 "[doc_long, doc_short]"]
          format_docs_truncation [of 5 1 "[doc_long, doc_short]"] s t
    by (simp add: Let_def)
qed

text \<open>
  C3 as stated fails: a record of ten characters under a budget of 5 is not cut to its
  first five characters plus the marker, but to its first two.
\<close>

theorem format_docs_budget_plus_marker_counterexample:
  "format_docs4 [\<lparr>page_content = ''abcdefghij'', metadata = Map.empty\<rparr>] 5
     = ''[Result 1]'' @ nl @ ''ab...''
   \<and> format_docs4 [\<lparr>page_content = ''abcdefghij'', metadata = Map.empty\<rparr>] 5
     \<noteq> ''[Result 1]'' @ nl @ take 5 ''abcdefghij'' @ ''...''
   \<and> format_docs5 [\<lparr>page_content = ''abcdefghij'', metadata = Map.empty\<rparr>] 5
     = ''[Source 1]'' @ nl @ ''ab...''
   \<and> format_docs5 [\<lparr>page_content = ''abcdefghij'', metadata = Map.empty\<rparr>] 5
     \<noteq> ''[Source 1]'' @ nl @ take 5 ''abcdefghij'' @ ''...''"
  by code_simp

text \<open>
  C10 at a budget below 3: the stop of the slice is negative, so it counts from the end of
  the content. A record of four characters under a budget of 2 is emitted as six
  characters, longer than the budget and than the record itself.
\<close>

theorem format_docs_budget_below_three:
  "format_docs4 [doc_plain] 2 = ''[Result 1]'' @ nl @ ''abc...''
   \<and> format_docs5 [doc_plain] 2 = ''[Source 1]'' @ nl @ ''abc...''
   \<and> int (length ''abc...'') \<noteq> 2"
  by code_simp

section \<open>Context formatting: determinism and the empty input\<close>

text \<open>
  C8. The output of \<open>format_docs\<close> is determined by what the loop reads of its
  arguments: the budget, the number of records and, of each record, the stripped text and
  the metadata under \<open>title\<close>, \<open>source\<close> and \<open>page\<close> (exercise 4) or under \<open>title\<close>
  (exercise 5). Two record sequences that agree on these give the same output under the
  same budget, identical inputs in particular; and on the empty sequence the output is the
  empty string.
\<close>

theorem format_docs_deterministic:
  "format_docs4 [] max_chars = [] \<and> format_docs5 [] max_chars = []
   \<and> (length docs = length docs'
        \<and> (\<forall>k < length docs.
               strip (page_content (docs ! k)) = strip (page_content (docs' ! k))
             \<and> metadata (docs ! k) ''title'' = metadata (docs' ! k) ''title''
             \<and> metadata (docs ! k) ''source'' = metadata (docs' ! k) ''source''
             \<and> metadata (docs ! k) ''page'' = metadata (docs' ! k) ''page'')
      \<longrightarrow> format_docs4 docs max_chars = format_docs4 docs' max_chars)
   \<and> (length docs = length docs'
        \<and> (\<forall>k < length docs.
               strip (page_content (docs ! k)) = strip (page_content (docs' ! k))
             \<and> metadata (docs ! k) ''title'' = metadata (docs' ! k) ''title'')
      \<longrightarrow> format_docs5 docs max_chars = format_docs5 docs' max_chars)"
proof (intro conjI impI)
  show "format_docs4 [] max_chars = []" by (simp add: format_docs4_def)
  show "format_docs5 [] max_chars = []" by (simp add: format_docs5_def)
next
  assume a: "length docs = length docs'
        \<and> (\<forall>k < length docs.
               strip (page_content (docs ! k)) = strip (page_content (docs' ! k))
             \<and> metadata (docs ! k) ''title'' = metadata (docs' ! k) ''title''
             \<and> metadata (docs ! k) ''source'' = metadata (docs' ! k) ''source''
             \<and> metadata (docs ! k) ''page'' = metadata (docs' ! k) ''page'')"
  have "format_docs4_loop max_chars 1 docs [] = format_docs4_loop max_chars 1 docs' []"
  proof (rule nth_equalityI)
    show "length (format_docs4_loop max_chars 1 docs []) = length (format_docs4_loop max_chars 1 docs' [])"
      using a by (simp add: format_docs4_loop_length)
  next
    fix k assume "k < length (format_docs4_loop max_chars 1 docs [])"
    then have k: "k < length docs" by (simp add: format_docs4_loop_length)
    then have k': "k < length docs'" using a by simp
    have t: "title4 (docs ! k) (1 + k) = title4 (docs' ! k) (1 + k)"
      using a k by (simp add: title4_def)
    show "format_docs4_loop max_chars 1 docs [] ! k = format_docs4_loop max_chars 1 docs' [] ! k"
      using format_docs4_loop_nth [OF k, of max_chars 1 "[]"]
            format_docs4_loop_nth [OF k', of max_chars 1 "[]"] t a k
      by simp
  qed
  then show "format_docs4 docs max_chars = format_docs4 docs' max_chars"
    by (simp add: format_docs4_def)
next
  assume a: "length docs = length docs'
        \<and> (\<forall>k < length docs.
               strip (page_content (docs ! k)) = strip (page_content (docs' ! k))
             \<and> metadata (docs ! k) ''title'' = metadata (docs' ! k) ''title'')"
  have "format_docs5_loop max_chars 1 docs [] = format_docs5_loop max_chars 1 docs' []"
  proof (rule nth_equalityI)
    show "length (format_docs5_loop max_chars 1 docs []) = length (format_docs5_loop max_chars 1 docs' [])"
      using a by (simp add: format_docs5_loop_length)
  next
    fix k assume "k < length (format_docs5_loop max_chars 1 docs [])"
    then have k: "k < length docs" by (simp add: format_docs5_loop_length)
    then have k': "k < length docs'" using a by simp
    have t: "title5 (docs ! k) (1 + k) = title5 (docs' ! k) (1 + k)"
      using a k by (simp add: title5_def)
    show "format_docs5_loop max_chars 1 docs [] ! k = format_docs5_loop max_chars 1 docs' [] ! k"
      using format_docs5_loop_nth [OF k, of max_chars 1 "[]"]
            format_docs5_loop_nth [OF k', of max_chars 1 "[]"] t a k
      by simp
  qed
  then show "format_docs5 docs max_chars = format_docs5 docs' max_chars"
    by (simp add: format_docs5_def)
qed

theorem format_docs_deterministic_witness:
  "length [doc_long] = length [doc_padded]
   \<and> strip (page_content doc_long) = strip (page_content doc_padded)
   \<and> metadata doc_long ''title'' = metadata doc_padded ''title''
   \<and> metadata doc_long ''source'' = metadata doc_padded ''source''
   \<and> metadata doc_long ''page'' = metadata doc_padded ''page''
   \<and> doc_long \<noteq> doc_padded
   \<and> format_docs4 [doc_long] 5 = format_docs4 [doc_padded] 5
   \<and> format_docs5 [doc_long] 5 = format_docs5 [doc_padded] 5
   \<and> format_docs4 [] 5 = [] \<and> format_docs5 [] 5 = []"
proof -
  have h: "strip (page_content doc_long) = strip (page_content doc_padded)
         \<and> metadata doc_long ''title'' = metadata doc_padded ''title''
         \<and> metadata doc_long ''source'' = metadata doc_padded ''source''
         \<and> metadata doc_long ''page'' = metadata doc_padded ''page''"
    by (simp add: doc_long_def doc_padded_def strip_def py_isspace_def)
  have d: "doc_long \<noteq> doc_padded"
    by (simp add: doc_long_def doc_padded_def)
  show ?thesis
    using format_docs_deterministic [of 5 "[doc_long]" "[doc_padded]"] h d
    by simp
qed

section \<open>Query classification\<close>

text \<open>
  C5. Whenever the classifier chain returns a string, \<open>classify_query\<close> returns one of
  \<open>academic\<close>, \<open>general\<close>, \<open>current_events\<close>; and it returns \<open>general\<close> when none of the
  keywords of the two other categories occurs in the stripped, lowered output.
\<close>

theorem classify_query_closed:
  assumes "llm_invoke w (ClassifierInput query) = Inr out"
  shows "snd (classify_query w query)
           \<in> {Inr ''academic'', Inr ''general'', Inr ''current_events''}
       \<and> (\<not> str_in ''academic'' (lower (strip out))
          \<and> \<not> str_in ''current_events'' (lower (strip out))
          \<and> \<not> str_in ''current'' (lower (strip out))
          \<and> \<not> str_in ''news'' (lower (strip out))
          \<longrightarrow> snd (classify_query w query) = Inr ''general'')"
  using assms by (simp add: classify_query_def Let_def)

theorem classify_query_closed_witness:
  "llm_invoke world_unclear (ClassifierInput ''What is a monad?'') = Inr ''I am not sure.''
   \<and> \<not> str_in ''academic'' (lower (strip ''I am not sure.''))
   \<and> \<not> str_in ''current_events'' (lower (strip ''I am not sure.''))
   \<and> \<not> str_in ''current'' (lower (strip ''I am not sure.''))
   \<and> \<not> str_in ''news'' (lower (strip ''I am not sure.''))
   \<and> snd (classify_query world_unclear ''What is a monad?'') = Inr ''general''"
proof -
  have h: "llm_invoke world_unclear (ClassifierInput ''What is a monad?'') = Inr ''I am not sure.''"
    by (simp add: world_unclear_def)
  have n: "\<not> str_in ''academic'' (lower (strip ''I am not sure.''))
         \<and> \<not> str_in ''current_events'' (lower (strip ''I am not sure.''))
         \<and> \<not> str_in ''current'' (lower (strip ''I am not sure.''))
         \<and> \<not> str_in ''news'' (lower (strip ''I am not sure.''))"
    by code_simp
  show ?thesis
    using classify_query_closed [OF h] h n by blast
qed

text \<open>
  C6. When the classifier chain returns a string, the tests run on the stripped, lowered
  output in a fixed order and the first that matches decides: if \<open>academic\<close> occurs in it
  the result is \<open>academic\<close>, whatever else occurs; otherwise, if \<open>current_events\<close>,
  \<open>current\<close> or \<open>news\<close> occurs the result is \<open>current_events\<close>, whether or not
  \<open>general\<close> occurs; otherwise the result is \<open>general\<close>. A keyword that occurs in the
  raw output occurs in the stripped, lowered output as well.
\<close>

theorem classify_query_precedence:
  assumes "llm_invoke w (ClassifierInput query) = Inr out"
  shows "(str_in ''academic'' (lower (strip out))
          \<longrightarrow> snd (classify_query w query) = Inr ''academic'')
       \<and> (\<not> str_in ''academic'' (lower (strip out))
            \<and> (str_in ''current_events'' (lower (strip out))
                \<or> str_in ''current'' (lower (strip out))
                \<or> str_in ''news'' (lower (strip out)))
          \<longrightarrow> snd (classify_query w query) = Inr ''current_events'')
       \<and> (\<not> str_in ''academic'' (lower (strip out))
            \<and> \<not> str_in ''current_events'' (lower (strip out))
            \<and> \<not> str_in ''current'' (lower (strip out))
            \<and> \<not> str_in ''news'' (lower (strip out))
          \<longrightarrow> snd (classify_query w query) = Inr ''general'')
       \<and> (str_in ''academic'' out \<longrightarrow> str_in ''academic'' (lower (strip out)))
       \<and> (str_in ''current_events'' out \<longrightarrow> str_in ''current_events'' (lower (strip out)))
       \<and> (str_in ''current'' out \<longrightarrow> str_in ''current'' (lower (strip out)))
       \<and> (str_in ''news'' out \<longrightarrow> str_in ''news'' (lower (strip out)))
       \<and> (str_in ''general'' out \<longrightarrow> str_in ''general'' (lower (strip out)))"
  using assms kw_academic [of out] kw_news [of out] kw_current [of out]
    kw_current_events [of out] kw_general [of out]
  by (simp add: classify_query_def Let_def)

theorem classify_query_precedence_witness:
  "llm_invoke world_capitalised (ClassifierInput ''q'') = Inr ''Academic news''
   \<and> str_in ''academic'' (lower (strip ''Academic news''))
   \<and> str_in ''news'' (lower (strip ''Academic news''))
   \<and> snd (classify_query world_capitalised ''q'') = Inr ''academic''
   \<and> llm_invoke world_news_general (ClassifierInput ''q'') = Inr ''General NEWS''
   \<and> \<not> str_in ''academic'' (lower (strip ''General NEWS''))
   \<and> str_in ''news'' (lower (strip ''General NEWS''))
   \<and> str_in ''general'' (lower (strip ''General NEWS''))
   \<and> snd (classify_query world_news_general ''q'') = Inr ''current_events''
   \<and> llm_invoke world_unclear (ClassifierInput ''q'') = Inr ''I am not sure.''
   \<and> snd (classify_query world_unclear ''q'') = Inr ''general''
   \<and> llm_invoke world_ambiguous (ClassifierInput ''q'') = Inr '' academic news ''
   \<and> str_in ''academic'' '' academic news '' \<and> str_in ''news'' '' academic news ''
   \<and> snd (classify_query world_ambiguous ''q'') = Inr ''academic''"
proof -
  have h1: "llm_invoke world_capitalised (ClassifierInput ''q'') = Inr ''Academic news''"
    by (simp add: world_capitalised_def)
  have k1: "str_in ''academic'' (lower (strip ''Academic news''))
          \<and> str_in ''news'' (lower (strip ''Academic news''))"
    by code_simp
  have h2: "llm_invoke world_news_general (ClassifierInput ''q'') = Inr ''General NEWS''"
    by (simp add: world_news_general_def)
  have k2: "\<not> str_in ''academic'' (lower (strip ''General NEWS''))
          \<and> str_in ''news'' (lower (strip ''General NEWS''))
          \<and> str_in ''general'' (lower (strip ''General NEWS''))"
    by code_simp
  have h3: "llm_invoke world_unclear (ClassifierInput ''q'') = Inr ''I am not sure.''"
    by (simp add: world_unclear_def)
  have k3: "\<not> str_in ''academic'' (lower (strip ''I am not sure.''))
          \<and> \<not> str_in ''current_events'' (lower (strip ''I am not sure.''))
          \<and> \<not> str_in ''current'' (lower (strip ''I am not sure.''))
          \<and> \<not> str_in ''news'' (lower (strip ''I am not sure.''))"
    by code_simp
  have h4: "llm_invoke world_ambiguous (ClassifierInput ''q'') = Inr '' academic news ''"
    by (simp add: world_ambiguous_def)
  have k4: "str_in ''academic'' '' academic news '' \<and> str_in ''news'' '' academic news ''"
    by simp
  have r1: "snd (classify_query world_capitalised ''q'') = Inr ''academic''"
    using classify_query_precedence [OF h1] k1 by simp
  have r2: "snd (classify_query world_news_general ''q'') = Inr ''current_events''"
    using classify_query_precedence [OF h2] k2 by simp
  have r3: "snd (classify_query world_unclear ''q'') = Inr ''general''"
    using classify_query_precedence [OF h3] k3 by simp
  have r4: "snd (classify_query world_ambiguous ''q'') = Inr ''academic''"
    using classify_query_precedence [OF h4] k4 by simp
  show ?thesis
    using h1 k1 r1 h2 k2 r2 h3 r3 h4 k4 r4 by simp
qed

section \<open>Retriever selection\<close>

text \<open>
  C7. \<open>get_retriever_for_type\<close> is defined on every label: \<open>academic\<close> gives the arXiv
  retriever with \<open>load_max_docs = 3\<close>, \<open>current_events\<close> the Tavily retriever with \<open>k = 5\<close>
  and \<open>search_type = news\<close>, and every other label, \<open>general\<close> among them, the Wikipedia
  retriever with \<open>top_k_results = 3\<close> and \<open>lang = en\<close>.
\<close>

theorem get_retriever_for_type_total:
  "get_retriever_for_type ''academic'' = ArxivRetriever 3
   \<and> get_retriever_for_type ''current_events'' = TavilySearchAPIRetriever 5 ''news''
   \<and> get_retriever_for_type ''general'' = WikipediaRetriever 3 ''en''
   \<and> (query_type \<noteq> ''academic'' \<and> query_type \<noteq> ''current_events''
        \<longrightarrow> get_retriever_for_type query_type = WikipediaRetriever 3 ''en'')"
  by (simp add: get_retriever_for_type_def)

theorem get_retriever_for_type_total_witness:
  "''sports'' \<noteq> ''academic'' \<and> ''sports'' \<noteq> ''current_events''
   \<and> get_retriever_for_type ''sports'' = WikipediaRetriever 3 ''en''"
  using get_retriever_for_type_total [of "''sports''"] by simp

section \<open>Language detection\<close>

text \<open>
  C9. When the language detector raises an exception, \<open>detect_query_language\<close> returns
  \<open>en\<close>: the exception does not reach the caller.
\<close>

theorem detect_query_language_fallback:
  assumes "detect w query = Inl (PyException m)"
  shows "snd (detect_query_language w query) = Inr ''en''"
  using assms by (simp add: detect_query_language_def)

theorem detect_query_language_fallback_witness:
  "detect world_detect_fails ''12345'' = Inl (PyException ''No features in text.'')
   \<and> snd (detect_query_language world_detect_fails ''12345'') = Inr ''en''"
proof -
  have h: "detect world_detect_fails ''12345'' = Inl (PyException ''No features in text.'')"
    by (simp add: world_detect_fails_def)
  show ?thesis
    using detect_query_language_fallback [OF h] h by simp
qed

section \<open>Language routing\<close>

text \<open>
  C1, as amended. When the detector returns a code outside the supported languages,
  \<open>answer_query_multilingual\<close> calls the detector and then the Wikipedia retriever
  configured with \<open>top_k_results = 3\<close> and \<open>lang = en\<close>, and calls nothing else but the
  generative backend; every result it returns starts with the header that records the
  detected code itself, with the language name \<open>language_name_from_code\<close> gives for it.
\<close>

theorem answer_query_multilingual_unsupported:
  assumes "detect w query = Inr lang_code" and "lang_code \<notin> set supported"
  shows "\<exists>t r. answer_query_multilingual w query =
                 ([DetectCall query, RetrieverCall (WikipediaRetriever 3 ''en'') query] @ t, r)
             \<and> (\<forall>ev \<in> set t. \<exists>i. ev = LlmCall i)
             \<and> (\<forall>out. r = Inr out \<longrightarrow>
                   starts_with (''[Detected language: '' @ lang_code @ '' (''
                                @ language_name_from_code lang_code @ '')]'' @ nl) out)"
  using assms
  by (auto simp: answer_query_multilingual_def detect_query_language_def
        get_wikipedia_retriever_def Let_def starts_with_iff split: sum.splits)

theorem answer_query_multilingual_unsupported_witness:
  "detect world_xx ''Who is Alan Turing?'' = Inr ''xx'' \<and> ''xx'' \<notin> set supported
   \<and> (\<exists>t r. answer_query_multilingual world_xx ''Who is Alan Turing?'' =
               ([DetectCall ''Who is Alan Turing?'',
                 RetrieverCall (WikipediaRetriever 3 ''en'') ''Who is Alan Turing?''] @ t, r)
           \<and> (\<forall>ev \<in> set t. \<exists>i. ev = LlmCall i)
           \<and> (\<forall>out. r = Inr out \<longrightarrow>
                 starts_with (''[Detected language: '' @ ''xx'' @ '' (''
                              @ language_name_from_code ''xx'' @ '')]'' @ nl) out))
   \<and> (\<exists>out. snd (answer_query_multilingual world_xx ''Who is Alan Turing?'') = Inr out)"
proof -
  have h1: "detect world_xx ''Who is Alan Turing?'' = Inr ''xx''"
    by (simp add: world_xx_def)
  have h2: "''xx'' \<notin> set supported"
    by (simp add: supported_def)
  have r: "snd (answer_query_multilingual world_xx ''Who is Alan Turing?'')
             = Inr (''[Detected language: xx (the same language as the question)]''
                    @ nl @ nl @ ''answer'')"
    by code_simp
  show ?thesis
    using answer_query_multilingual_unsupported [OF h1 h2] h1 h2 r by blast
qed

text \<open>
  C1 as stated fails: with the detected code \<open>xx\<close>, the result records \<open>xx\<close>; the
  fallback \<open>en\<close> occurs nowhere in it.
\<close>

theorem answer_query_multilingual_records_detected_code:
  "detect world_xx ''Who is Alan Turing?'' = Inr ''xx'' \<and> ''xx'' \<notin> set supported
   \<and> snd (answer_query_multilingual world_xx ''Who is Alan Turing?'')
       = Inr (''[Detected language: xx (the same language as the question)]''
              @ nl @ nl @ ''answer'')
   \<and> \<not> str_in ''en'' (''[Detected language: xx (the same language as the question)]''
                        @ nl @ nl @ ''answer'')"
  by code_simp

section \<open>Empty retrieval\<close>

text \<open>
  C2. When the selected retriever returns no documents, \<open>hybrid_retrieve\<close> returns the
  text saying that no results were found from the selected source, and
  \<open>answer_query_multilingual\<close> the text saying that no relevant articles were found;
  neither invokes the generative backend to generate from that retrieval: the calls of
  \<open>hybrid_retrieve\<close> are the classification and the retrieval, those of
  \<open>answer_query_multilingual\<close> the detection and the retrieval.
\<close>

theorem empty_retrieval_short_circuit:
  "(snd (classify_query w query) = Inr query_type
      \<and> retriever_invoke w (get_retriever_for_type query_type) query = Inr []
    \<longrightarrow> hybrid_retrieve w query =
          ([LlmCall (ClassifierInput query),
            RetrieverCall (get_retriever_for_type query_type) query],
           Inr (''Query type: '' @ query_type @ nl
                @ ''No results found from the selected source.'')))
   \<and> (snd (detect_query_language w query) = Inr lang_code
      \<and> retriever_invoke w (get_wikipedia_retriever lang_code) query = Inr []
    \<longrightarrow> answer_query_multilingual w query =
          ([DetectCall query, RetrieverCall (get_wikipedia_retriever lang_code) query],
           Inr (''[Detected language: '' @ lang_code @ '' ('' @ language_name_from_code lang_code
                @ '')]'' @ nl
                @ ''No relevant Wikipedia articles were found for this query.'')))"
proof (intro conjI impI)
  assume a: "snd (classify_query w query) = Inr query_type
      \<and> retriever_invoke w (get_retriever_for_type query_type) query = Inr []"
  then have "classify_query w query = ([LlmCall (ClassifierInput query)], Inr query_type)"
    by (auto simp: classify_query_def Let_def split: sum.splits)
  with a show "hybrid_retrieve w query =
          ([LlmCall (ClassifierInput query),
            RetrieverCall (get_retriever_for_type query_type) query],
           Inr (''Query type: '' @ query_type @ nl
                @ ''No results found from the selected source.''))"
    by (simp add: hybrid_retrieve_def Let_def)
next
  assume a: "snd (detect_query_language w query) = Inr lang_code
      \<and> retriever_invoke w (get_wikipedia_retriever lang_code) query = Inr []"
  then have "detect_query_language w query = ([DetectCall query], Inr lang_code)"
    by (auto simp: detect_query_language_def split: sum.splits py_exc.splits)
  with a show "answer_query_multilingual w query =
          ([DetectCall query, RetrieverCall (get_wikipedia_retriever lang_code) query],
           Inr (''[Detected language: '' @ lang_code @ '' ('' @ language_name_from_code lang_code
                @ '')]'' @ nl
                @ ''No relevant Wikipedia articles were found for this query.''))"
    by (simp add: answer_query_multilingual_def Let_def)
qed

theorem empty_retrieval_short_circuit_witness:
  "snd (classify_query world_no_results ''Latest developments in AI regulation'')
     = Inr ''current_events''
   \<and> retriever_invoke world_no_results (get_retriever_for_type ''current_events'')
       ''Latest developments in AI regulation'' = Inr []
   \<and> hybrid_retrieve world_no_results ''Latest developments in AI regulation'' =
       ([LlmCall (ClassifierInput ''Latest developments in AI regulation''),
         RetrieverCall (get_retriever_for_type ''current_events'')
           ''Latest developments in AI regulation''],
        Inr (''Query type: '' @ ''current_events'' @ nl
             @ ''No results found from the selected source.''))
   \<and> snd (detect_query_language world_no_results ''Latest developments in AI regulation'')
     = Inr ''en''
   \<and> retriever_invoke world_no_results (get_wikipedia_retriever ''en'')
       ''Latest developments in AI regulation'' = Inr []
   \<and> answer_query_multilingual world_no_results ''Latest developments in AI regulation'' =
       ([DetectCall ''Latest developments in AI regulation'',
         RetrieverCall (get_wikipedia_retriever ''en'') ''Latest developments in AI regulation''],
        Inr (''[Detected language: '' @ ''en'' @ '' ('' @ language_name_from_code ''en''
             @ '')]'' @ nl
             @ ''No relevant Wikipedia articles were found for this query.''))"
proof -
  have a: "snd (classify_query world_no_results ''Latest developments in AI regulation'')
             = Inr ''current_events''"
    by code_simp
  have b: "retriever_invoke world_no_results (get_retriever_for_type ''current_events'')
             ''Latest developments in AI regulation'' = Inr []"
    by (simp add: world_no_results_def)
  have c: "snd (detect_query_language world_no_results ''Latest developments in AI regulation'')
             = Inr ''en''"
    by code_simp
  have d: "retriever_invoke world_no_results (get_wikipedia_retriever ''en'')
             ''Latest developments in AI regulation'' = Inr []"
    by (simp add: world_no_results_def)
  show ?thesis
    using empty_retrieval_short_circuit
            [of world_no_results "''Latest developments in AI regulation''"
                "''current_events''" "''en''"] a b c d
    by blast
qed

section \<open>Multi-source aggregation\<close>

text \<open>
  C4, as amended. In the multi-source news chain both retrievers are called on the topic.
  If the news retriever raises, or it returns and the Wikipedia retriever raises, the
  invocation of the chain ends with that exception and the generative backend is not
  called. Only when both retrievers return is the generative backend called, with the
  records of each source formatted separately by \<open>format_docs\<close>, one block per record in
  the order of the records, as \<open>news_context\<close> and \<open>wiki_context\<close>; the result of the
  chain is then the result of that call.
\<close>

theorem multi_source_news_chain_propagates:
  "(retriever_invoke w (TavilySearchAPIRetriever 5 ''news'') topic = Inl e
    \<longrightarrow> multi_source_news_chain w topic =
          ([RetrieverCall (TavilySearchAPIRetriever 5 ''news'') topic,
            RetrieverCall (WikipediaRetriever 3 ''en'') topic], Inl e))
   \<and> (retriever_invoke w (TavilySearchAPIRetriever 5 ''news'') topic = Inr news_docs
      \<and> retriever_invoke w (WikipediaRetriever 3 ''en'') topic = Inl e
    \<longrightarrow> multi_source_news_chain w topic =
          ([RetrieverCall (TavilySearchAPIRetriever 5 ''news'') topic,
            RetrieverCall (WikipediaRetriever 3 ''en'') topic], Inl e))
   \<and> (retriever_invoke w (TavilySearchAPIRetriever 5 ''news'') topic = Inr news_docs
      \<and> retriever_invoke w (WikipediaRetriever 3 ''en'') topic = Inr wiki_docs
    \<longrightarrow> multi_source_news_chain w topic =
          ([RetrieverCall (TavilySearchAPIRetriever 5 ''news'') topic,
            RetrieverCall (WikipediaRetriever 3 ''en'') topic,
            LlmCall (NewsInput topic (format_docs3 news_docs) (format_docs3 wiki_docs))],
           llm_invoke w (NewsInput topic (format_docs3 news_docs) (format_docs3 wiki_docs))))
   \<and> format_docs3 docs = join (nl @ nl) (format_docs3_loop 1 docs [])
   \<and> length (format_docs3_loop 1 docs []) = length docs
   \<and> (k < length docs \<longrightarrow>
        format_docs3_loop 1 docs [] ! k =
          ''['' @ py_str (title3 (docs ! k) (k + 1)) @ '']'' @ nl @ page_content (docs ! k))"
  using format_docs3_loop_nth [of k docs 1 "[]"]
  by (simp add: multi_source_news_chain_def Let_def format_docs3_def format_docs3_loop_length)

theorem multi_source_news_chain_propagates_witness:
  "retriever_invoke world_tavily_down (TavilySearchAPIRetriever 5 ''news'') ''AI''
     = Inl (PyException ''unauthorized'')
   \<and> multi_source_news_chain world_tavily_down ''AI'' =
       ([RetrieverCall (TavilySearchAPIRetriever 5 ''news'') ''AI'',
         RetrieverCall (WikipediaRetriever 3 ''en'') ''AI''], Inl (PyException ''unauthorized''))
   \<and> retriever_invoke world_wiki_timeout (TavilySearchAPIRetriever 5 ''news'') ''AI''
     = Inr [doc_long, doc_short, doc_plain]
   \<and> retriever_invoke world_wiki_timeout (WikipediaRetriever 3 ''en'') ''AI''
     = Inl (PyException ''timed out'')
   \<and> multi_source_news_chain world_wiki_timeout ''AI'' =
       ([RetrieverCall (TavilySearchAPIRetriever 5 ''news'') ''AI'',
         RetrieverCall (WikipediaRetriever 3 ''en'') ''AI''], Inl (PyException ''timed out''))
   \<and> retriever_invoke world_xx (TavilySearchAPIRetriever 5 ''news'') ''AI'' = Inr [doc_plain]
   \<and> retriever_invoke world_xx (WikipediaRetriever 3 ''en'') ''AI'' = Inr [doc_plain]
   \<and> multi_source_news_chain world_xx ''AI'' =
       ([RetrieverCall (TavilySearchAPIRetriever 5 ''news'') ''AI'',
         RetrieverCall (WikipediaRetriever 3 ''en'') ''AI'',
         LlmCall (NewsInput ''AI'' (format_docs3 [doc_plain]) (format_docs3 [doc_plain]))],
        llm_invoke world_xx (NewsInput ''AI'' (format_docs3 [doc_plain]) (format_docs3 [doc_plain])))
   \<and> (1::nat) < length [doc_long, doc_short]
   \<and> format_docs3_loop 1 [doc_long, doc_short] [] ! 1 =
       ''['' @ py_str (title3 ([doc_long, doc_short] ! 1) (1 + 1)) @ '']'' @ nl
       @ page_content ([doc_long, doc_short] ! 1)"
proof -
  have a: "retriever_invoke world_tavily_down (TavilySearchAPIRetriever 5 ''news'') ''AI''
             = Inl (PyException ''unauthorized'')"
    by (simp add: world_tavily_down_def)
  have b: "retriever_invoke world_wiki_timeout (TavilySearchAPIRetriever 5 ''news'') ''AI''
             = Inr [doc_long, doc_short, doc_plain]"
    by (simp add: world_wiki_timeout_def)
  have c: "retriever_invoke world_wiki_timeout (WikipediaRetriever 3 ''en'') ''AI''
             = Inl (PyException ''timed out'')"
    by (simp add: world_wiki_timeout_def)
  have d: "retriever_invoke world_xx (TavilySearchAPIRetriever 5 ''news'') ''AI'' = Inr [doc_plain]"
    by (simp add: world_xx_def)
  have e: "retriever_invoke world_xx (WikipediaRetriever 3 ''en'') ''AI'' = Inr [doc_plain]"
    by (simp add: world_xx_def)
  have f: "(1::nat) < length [doc_long, doc_short]"
    by simp
  show ?thesis
    using multi_source_news_chain_propagates
            [of world_tavily_down "''AI''" "PyException ''unauthorized''"]
          multi_source_news_chain_propagates
            [of world_wiki_timeout "''AI''" "PyException ''timed out''"
                "[doc_long, doc_short, doc_plain]"]
          multi_source_news_chain_propagates
            [of world_xx "''AI''" _ "[doc_plain]" "[doc_plain]" "[doc_long, doc_short]" 1]
          a b c d e f
    by blast
qed

text \<open>
  C4 as stated fails: the news retriever returns three records, the Wikipedia retriever
  times out, and the invocation of the chain ends with the timeout; nothing is merged and
  the generative backend is not called.
\<close>

theorem multi_source_news_chain_aborts:
  "retriever_invoke world_wiki_timeout (TavilySearchAPIRetriever 5 ''news'') ''AI''
     = Inr [doc_long, doc_short, doc_plain]
   \<and> retriever_invoke world_wiki_timeout (WikipediaRetriever 3 ''en'') ''AI''
     = Inl (PyException ''timed out'')
   \<and> multi_source_news_chain world_wiki_timeout ''AI''
     = ([RetrieverCall (TavilySearchAPIRetriever 5 ''news'') ''AI'',
         RetrieverCall (WikipediaRetriever 3 ''en'') ''AI''], Inl (PyException ''timed out''))"
  by (simp add: world_wiki_timeout_def multi_source_news_chain_def Let_def)

end
